theory Spec2Isabelle
  imports Complex_Main "HOL-Library.Word" "HOL-Library.Char_ord" "HOL-Library.List_Lexorder"
begin

section \<open>Values and faults\<close>

text \<open>
  The snippets compute with \<^verbatim>\<open>int\<close>, a 32-bit two's complement integer on the platforms
  they are written for. Signed overflow is undefined in C++: the model makes it a fault, so
  that nothing is proved about a run that overflows.
\<close>

type_synonym cint = "32 word"

datatype fault = Signed_overflow | Bad_alloc | System_error

definition int_min :: int where
  "int_min = - (2 ^ 31)"

definition int_max :: int where
  "int_max = 2 ^ 31 - 1"

definition in_int_range :: "int \<Rightarrow> bool" where
  "in_int_range i = (int_min \<le> i \<and> i \<le> int_max)"

text \<open>\<^verbatim>\<open>a + b\<close> on \<^verbatim>\<open>int\<close>.\<close>

definition add_int :: "cint \<Rightarrow> cint \<Rightarrow> fault + cint" where
  "add_int a b = (if in_int_range (sint a + sint b) then Inr (a + b) else Inl Signed_overflow)"

section \<open>Templates\<close>

text \<open>
  \<^verbatim>\<open>template <typename... T> struct arity { constexpr static int value = sizeof...(T); };\<close>
  The parameter pack is the list of its type arguments.
\<close>

datatype cpp_type = T_int | T_float | T_double | T_string

definition arity_value :: "cpp_type list \<Rightarrow> cint" where
  "arity_value T = of_nat (length T)"

text \<open>
  \<^verbatim>\<open>template <typename T> T& getLarger(T& a, T& b) { return (a > b) ? a : b; }\<close>
  A reference is the address of an object in a store; the function reads both objects and
  returns one of the two addresses. \<^verbatim>\<open>operator>\<close> is that of the type, with no law assumed.
\<close>

type_synonym addr = nat

type_synonym 'a store = "addr \<Rightarrow> 'a"

definition getLarger :: "('a::ord) store \<Rightarrow> addr \<Rightarrow> addr \<Rightarrow> addr" where
  "getLarger s a b = (if s a > s b then a else b)"

text \<open>Assignment through a reference: \<^verbatim>\<open>r = v\<close>.\<close>

definition assign_ref :: "'a store \<Rightarrow> addr \<Rightarrow> 'a \<Rightarrow> 'a store" where
  "assign_ref s r v = s(r := v)"

text \<open>
  \<^verbatim>\<open>std::accumulate(first, last, init)\<close>: \<^verbatim>\<open>init = init + *it\<close> for each element in order.
\<close>

fun accumulate :: "cint list \<Rightarrow> cint \<Rightarrow> fault + cint" where
  "accumulate [] init = Inr init"
| "accumulate (x # xs) init =
     (case add_int init x of Inl e \<Rightarrow> Inl e | Inr v \<Rightarrow> accumulate xs v)"

text \<open>
  \<^verbatim>\<open>
  template <typename First, typename... Args>
  auto sum(const First firstArgument, const Args... otherArguments) -> decltype(firstArgument)
  {
    const auto values = {firstArgument, otherArguments...};
    return std::accumulate(values.begin(), values.end(), First{0});
  }
  \<close>
  at \<^verbatim>\<open>First = int\<close>; the braced list only compiles when every argument has that type.
\<close>

definition sum_variadic :: "cint \<Rightarrow> cint list \<Rightarrow> fault + cint" where
  "sum_variadic firstArgument otherArguments =
     (let values = firstArgument # otherArguments in accumulate values 0)"

section \<open>Initializer lists\<close>

text \<open>
  \<^verbatim>\<open>
  int sum(const std::initializer_list<int>& list)
  {
    int total = 0;
    for (auto& e : list) { total += e; }
    return total;
  }
  \<close>
  The loop, from a running \<^verbatim>\<open>total\<close>:
\<close>

fun sum_loop :: "cint \<Rightarrow> cint list \<Rightarrow> fault + cint" where
  "sum_loop total' [] = Inr total'"
| "sum_loop total' (e # es) =
     (case add_int total' e of Inl f \<Rightarrow> Inl f | Inr t \<Rightarrow> sum_loop t es)"

definition sum_initializer_list :: "cint list \<Rightarrow> fault + cint" where
  "sum_initializer_list list = sum_loop 0 list"

text \<open>
  The exact values that \<^verbatim>\<open>total\<close> should take, one after each element, as integers with
  no bound.
\<close>

fun running_totals :: "int \<Rightarrow> int list \<Rightarrow> int list" where
  "running_totals t [] = []"
| "running_totals t (e # es) = (t + e) # running_totals (t + e) es"

section \<open>Processes\<close>

text \<open>
  Every example is a process started with no arguments. What is outside the process is the
  \<open>world\<close>: the command line, the environment, the files, the network and the two standard
  streams. A program is a function of the machine state that returns a value or a fault,
  and the state it leaves.

  The standard library is not part of the repository. What its operations ask of the
  runtime and can be refused (an allocation, a thread start, a lock) is a request:
  \<open>failures\<close> lists, for the requests still to come, whether each one fails; past the end
  of the list every request succeeds. The library is taken as the GNU C++ library has it:
  a \<^verbatim>\<open>std::string\<close> of at most 15 characters is held in the string object itself and
  allocates nothing.
\<close>

record world =
  argv :: "string list"
  environ :: "string \<rightharpoonup> string"
  stdin :: string
  files :: "string \<rightharpoonup> string"
  network :: "string list"
  stdout :: string

record machine =
  env :: world
  failures :: "bool list"

type_synonym 'a prog = "machine \<Rightarrow> (fault + 'a) \<times> machine"

definition ret :: "'a \<Rightarrow> 'a prog" where
  "ret v = (\<lambda>s. (Inr v, s))"

text \<open>A \<^verbatim>\<open>throw\<close>; the snippets have none, the library has.\<close>

definition throw :: "fault \<Rightarrow> 'a prog" where
  "throw f = (\<lambda>s. (Inl f, s))"

text \<open>
  Sequencing, \<^verbatim>\<open>m; k\<close>: a fault of \<open>m\<close> leaves the block, since no snippet has a
  \<^verbatim>\<open>try\<close> block.
\<close>

definition and_then :: "'a prog \<Rightarrow> ('a \<Rightarrow> 'b prog) \<Rightarrow> 'b prog" where
  "and_then m k = (\<lambda>s. case m s of (Inl f, s') \<Rightarrow> (Inl f, s') | (Inr v, s') \<Rightarrow> k v s')"

fun block :: "unit prog list \<Rightarrow> unit prog" where
  "block [] = ret ()"
| "block (c # cs) = and_then c (\<lambda>_. block cs)"

text \<open>
  What the library does where it is specified to clean up and rethrow
  (\<^verbatim>\<open>catch (...) { cleanup; throw; }\<close>).
\<close>

definition on_fault :: "'a prog \<Rightarrow> unit prog \<Rightarrow> 'a prog" where
  "on_fault m cleanup =
     (\<lambda>s. case m s of
        (Inl f, s') \<Rightarrow> and_then cleanup (\<lambda>_. throw f) s'
      | (Inr v, s') \<Rightarrow> (Inr v, s'))"

definition request :: "fault \<Rightarrow> unit prog" where
  "request f =
     (\<lambda>s. case failures s of
        [] \<Rightarrow> (Inr (), s)
      | fails # rest \<Rightarrow> (if fails then Inl f else Inr (), s\<lparr>failures := rest\<rparr>))"

text \<open>
  A request made inside a library operation that catches the exception: the operation is
  told whether the request succeeded, and nothing is thrown.
\<close>

definition attempt :: "bool prog" where
  "attempt =
     (\<lambda>s. case failures s of
        [] \<Rightarrow> (Inr True, s)
      | fails # rest \<Rightarrow> (Inr (\<not> fails), s\<lparr>failures := rest\<rparr>))"

text \<open>A pure computation whose fault, if any, is raised.\<close>

definition lift :: "fault + 'a \<Rightarrow> 'a prog" where
  "lift r = (case r of Inl f \<Rightarrow> throw f | Inr v \<Rightarrow> ret v)"

text \<open>The state with a text appended to the standard output.\<close>

definition printed :: "machine \<Rightarrow> string \<Rightarrow> machine" where
  "printed s text = s\<lparr>env := (env s)\<lparr>stdout := stdout (env s) @ text\<rparr>\<rparr>"

text \<open>\<^verbatim>\<open>std::cout << text\<close>.\<close>

definition cout_put :: "string \<Rightarrow> unit prog" where
  "cout_put text = (\<lambda>s. (Inr (), printed s text))"

text \<open>\<^verbatim>\<open>"\n"\<close> and what \<^verbatim>\<open>std::endl\<close> writes.\<close>

definition nl :: string where
  "nl = [CHR 0x0A]"

definition dquote :: string where
  "dquote = [CHR 0x22]"

text \<open>\<^verbatim>\<open>std::cout << i\<close> for an \<^verbatim>\<open>int\<close>: decimal, with a sign when negative.\<close>

fun dec_digits :: "nat \<Rightarrow> string" where
  "dec_digits n =
     (if n < 10 then [char_of (48 + n)] else dec_digits (n div 10) @ [char_of (48 + n mod 10)])"

declare dec_digits.simps [simp del]

definition show_int :: "cint \<Rightarrow> string" where
  "show_int i =
     (if sint i < 0 then CHR ''-'' # dec_digits (nat (- sint i)) else dec_digits (nat (sint i)))"

text \<open>
  How a process ends: \<^verbatim>\<open>main\<close> returns its exit code, or an exception leaves it and
  \<^verbatim>\<open>std::terminate\<close> ends the process.
\<close>

datatype exit_status = Exited cint | Terminated fault

definition run_process :: "cint prog \<Rightarrow> machine \<Rightarrow> exit_status \<times> machine" where
  "run_process main s =
     (case main s of (Inr code, s') \<Rightarrow> (Exited code, s') | (Inl f, s') \<Rightarrow> (Terminated f, s'))"

text \<open>A process started with nothing around it, in which every request succeeds.\<close>

definition empty_world :: world where
  "empty_world =
     \<lparr>argv = [], environ = Map.empty, stdin = [], files = Map.empty, network = [], stdout = []\<rparr>"

definition start :: machine where
  "start = \<lparr>env = empty_world, failures = []\<rparr>"

section \<open>The shape examples\<close>

text \<open>
  The version with virtual functions: \<^verbatim>\<open>Shape\<close> is an abstract class, \<^verbatim>\<open>draw\<close> is
  dispatched on the dynamic type of the object.
\<close>

datatype Shape = Circle_object | Square_object

fun draw :: "Shape \<Rightarrow> unit prog" where
  "draw Circle_object = cout_put (''Drawing Circle'' @ nl)"
| "draw Square_object = cout_put (''Drawing Square'' @ nl)"

definition render_virtual :: "Shape \<Rightarrow> unit prog" where
  "render_virtual shape = draw shape"

definition main_virtual :: "cint prog" where
  "main_virtual =
     (let c = Circle_object; s = Square_object in
      and_then (block [render_virtual c, render_virtual s]) (\<lambda>_. ret 0))"

text \<open>
  The CRTP version. \<^verbatim>\<open>Shape<Derived>::draw\<close> casts \<^verbatim>\<open>this\<close> to \<^verbatim>\<open>Derived\<close> and calls
  its \<^verbatim>\<open>drawImpl\<close>: the template argument is the class together with that member.
  \<^verbatim>\<open>Circle\<close> and \<^verbatim>\<open>Square\<close> have no data members.
\<close>

datatype Circle = Circle

datatype Square = Square

definition Shape_draw :: "('derived \<Rightarrow> unit prog) \<Rightarrow> 'derived \<Rightarrow> unit prog" where
  "Shape_draw drawImpl this = drawImpl this"

definition Circle_drawImpl :: "Circle \<Rightarrow> unit prog" where
  "Circle_drawImpl this = cout_put (''Drawing Circle'' @ nl)"

definition Square_drawImpl :: "Square \<Rightarrow> unit prog" where
  "Square_drawImpl this = cout_put (''Drawing Square'' @ nl)"

text \<open>\<^verbatim>\<open>template <typename ShapeType> void render(const ShapeType& shape) { shape.draw(); }\<close>\<close>

definition render :: "('shape \<Rightarrow> unit prog) \<Rightarrow> 'shape \<Rightarrow> unit prog" where
  "render draw_of shape = draw_of shape"

definition main_crtp :: "cint prog" where
  "main_crtp =
     (let c = Circle; s = Square in
      and_then
        (block [render (Shape_draw Circle_drawImpl) c, render (Shape_draw Square_drawImpl) s])
        (\<lambda>_. ret 0))"

section \<open>The vector example\<close>

record MyClass =
  m_x :: cint
  m_y :: string

text \<open>
  A \<^verbatim>\<open>std::string\<close> made from a literal or copied from another: an allocation when the
  text is longer than the short-string buffer, and none otherwise. The strings of this
  example and of the template example are all short.
\<close>

definition short_string_capacity :: nat where
  "short_string_capacity = 15"

definition string_make :: "string \<Rightarrow> string prog" where
  "string_make text =
     (if length text \<le> short_string_capacity then ret text
      else and_then (request Bad_alloc) (\<lambda>_. ret text))"

text \<open>
  \<^verbatim>\<open>
  MyClass(int x, std::string y) : m_x(x), m_y(y)
  {
      std::cout << "Constructed MyClass(" << m_x << ", " << m_y << ")" << std::endl;
  }
  \<close>
\<close>

definition MyClass_ctor :: "cint \<Rightarrow> string \<Rightarrow> MyClass prog" where
  "MyClass_ctor x y =
     and_then (string_make y) (\<lambda>y'.
       (let this = \<lparr>m_x = x, m_y = y'\<rparr> in
        and_then
          (cout_put (''Constructed MyClass('' @ show_int (m_x this) @ '', '' @ m_y this @ '')'' @ nl))
          (\<lambda>_. ret this)))"

text \<open>
  \<^verbatim>\<open>myVector.emplace_back(x, "literal")\<close>: room for one more element, the
  \<^verbatim>\<open>std::string\<close> argument made from the literal, the element constructed in place.
\<close>

definition emplace_back :: "MyClass list \<Rightarrow> cint \<Rightarrow> string \<Rightarrow> MyClass list prog" where
  "emplace_back v x literal =
     and_then (request Bad_alloc) (\<lambda>_.
     and_then (string_make literal) (\<lambda>y.
     and_then (MyClass_ctor x y) (\<lambda>element. ret (v @ [element]))))"

definition main_vector :: "cint prog" where
  "main_vector =
     (let myVector = [] in
      and_then (emplace_back myVector 1 ''Apple'') (\<lambda>myVector.
      and_then (emplace_back myVector 2 ''Banana'') (\<lambda>myVector.
      and_then (emplace_back myVector 3 ''Cherry'') (\<lambda>myVector. ret 0))))"

section \<open>The template example\<close>

text \<open>
  The locals of \<^verbatim>\<open>main\<close> that \<^verbatim>\<open>getLarger\<close> takes by reference live at addresses 0 and
  1 of a store of their type. An \<^verbatim>\<open>int\<close> in a store is its value, so that \<open>>\<close> is the signed
  comparison; a \<^verbatim>\<open>double\<close> literal is the real number it denotes, and the text that
  \<^verbatim>\<open>operator<<\<close> gives a \<^verbatim>\<open>double\<close> is a parameter.
\<close>

definition locals :: "'a \<Rightarrow> 'a \<Rightarrow> 'a store" where
  "locals x y = (\<lambda>_. y)(0 := x)"

definition main_templates :: "(real \<Rightarrow> string) \<Rightarrow> cint prog" where
  "main_templates show_double =
     (let ints = locals (5 :: int) 10;
          doubles = locals (35 / 10 :: real) (25 / 10) in
      and_then (cout_put (''Larger int: '' @ show_int (of_int (ints (getLarger ints 0 1))) @ nl)) (\<lambda>_.
      and_then (cout_put (''Larger double: '' @ show_double (doubles (getLarger doubles 0 1)) @ nl)) (\<lambda>_.
      and_then (string_make ''Hello'') (\<lambda>string1.
      and_then (string_make ''World'') (\<lambda>string2.
        (let strings = locals string1 string2;
             largerString = getLarger strings 0 1 in
         and_then (string_make ''Hello World'') (\<lambda>text.
           (let strings = assign_ref strings largerString text in
            and_then (cout_put (''string2: '' @ strings 1 @ nl)) (\<lambda>_.
            and_then (cout_put (''Arity of int: '' @ show_int (arity_value [T_int, T_float]) @ nl)) (\<lambda>_.
            and_then (lift (sum_variadic 1 [2, 3, 4, 5, 6, 7, 8, 9, 10])) (\<lambda>total'.
            and_then (cout_put (''Sum: '' @ show_int total' @ nl)) (\<lambda>_. ret 0))))))))))))"

section \<open>The smart pointer examples\<close>

text \<open>
  \<^verbatim>\<open>
  class Resource
  {
  public:
      Resource() { std::cout << "Resource acquired\n"; }
      ~Resource() { std::cout << "Resource released\n"; }
  };
  \<close>
\<close>

definition Resource_ctor :: "unit prog" where
  "Resource_ctor = cout_put (''Resource acquired'' @ nl)"

definition Resource_dtor :: "unit prog" where
  "Resource_dtor = cout_put (''Resource released'' @ nl)"

text \<open>\<^verbatim>\<open>new Resource()\<close> and \<^verbatim>\<open>std::make_unique<Resource>()\<close>: the storage, then the constructor.\<close>

definition new_Resource :: "unit prog" where
  "new_Resource = and_then (request Bad_alloc) (\<lambda>_. Resource_ctor)"

text \<open>\<^verbatim>\<open>delete p\<close> for a \<^verbatim>\<open>Resource\<close>: the destructor, then the storage is given back.\<close>

definition delete_Resource :: "unit prog" where
  "delete_Resource = Resource_dtor"

text \<open>
  \<^verbatim>\<open>std::shared_ptr<Resource>{p}\<close> allocates its control block; when that throws, the
  library deletes \<^verbatim>\<open>p\<close> and rethrows.
\<close>

definition shared_ptr_ctor :: "unit prog" where
  "shared_ptr_ctor = on_fault (request Bad_alloc) delete_Resource"

text \<open>
  \<^verbatim>\<open>
  int main()
  {
      shared_ptr<Resource> ptr1{new Resource()};
      return 0;
  }
  \<close>
  \<^verbatim>\<open>ptr1\<close> is the only owner, so its destructor at the end of \<^verbatim>\<open>main\<close> deletes the object.
\<close>

definition main_shared_ptr :: "cint prog" where
  "main_shared_ptr =
     and_then (block [new_Resource, shared_ptr_ctor, delete_Resource]) (\<lambda>_. ret 0)"

text \<open>
  \<^verbatim>\<open>
  void useResource()
  {
      std::unique_ptr<Resource> resource = std::make_unique<Resource>();
  }
  \<close>
\<close>

definition useResource :: "unit prog" where
  "useResource = block [new_Resource, delete_Resource]"

definition main_unique_ptr :: "cint prog" where
  "main_unique_ptr = and_then useResource (\<lambda>_. ret 0)"

text \<open>
  The \<^verbatim>\<open>make_unique\<close> example has a class of its own, also called \<^verbatim>\<open>MyClass\<close>:
  \<^verbatim>\<open>
  class MyClass
  {
  public:
      MyClass(int value) : m_value(value) {}
      void display() const { std::cout << "Value: " << m_value << std::endl; }
  private:
      int m_value;
  };
  \<close>
\<close>

record MyClass_value =
  m_value :: cint

definition MyClass_value_ctor :: "cint \<Rightarrow> MyClass_value" where
  "MyClass_value_ctor v = \<lparr>m_value = v\<rparr>"

definition display :: "MyClass_value \<Rightarrow> unit prog" where
  "display this = cout_put (''Value: '' @ show_int (m_value this) @ nl)"

definition displayValue :: "cint \<Rightarrow> unit prog" where
  "displayValue v =
     and_then (request Bad_alloc) (\<lambda>_.
       (let myClassPtr = MyClass_value_ctor v in display myClassPtr))"

definition main_make_unique :: "cint prog" where
  "main_make_unique = and_then (displayValue 10) (\<lambda>_. ret 0)"

section \<open>The move example\<close>

text \<open>
  \<^verbatim>\<open>MovableClass\<close> has no data members: an object of the class has one possible value.
  The objects of a function live in a store, at the address the function gives them; a
  reference to an object is its address.
\<close>

datatype MovableClass = MovableClass

type_synonym objects = "addr \<rightharpoonup> MovableClass"

definition MovableClass_ctor :: "addr \<Rightarrow> objects \<Rightarrow> objects prog" where
  "MovableClass_ctor this objs =
     and_then (cout_put (''Constructor'' @ nl)) (\<lambda>_. ret (objs(this \<mapsto> MovableClass)))"

definition MovableClass_dtor :: "addr \<Rightarrow> objects \<Rightarrow> objects prog" where
  "MovableClass_dtor this objs =
     and_then (cout_put (''Destructor'' @ nl)) (\<lambda>_. ret (objs(this := None)))"

text \<open>
  \<^verbatim>\<open>MovableClass(MovableClass&& other) { std::cout << "Move Constructor" << std::endl; }\<close>
\<close>

definition MovableClass_move_ctor :: "addr \<Rightarrow> addr \<Rightarrow> objects \<Rightarrow> objects prog" where
  "MovableClass_move_ctor this other objs =
     and_then (cout_put (''Move Constructor'' @ nl)) (\<lambda>_. ret (objs(this \<mapsto> MovableClass)))"

text \<open>
  \<^verbatim>\<open>
  MovableClass& operator=(MovableClass&& other)
  {
      std::cout << "Move Assignment Operator" << std::endl;
      return *this;
  }
  \<close>
  The result is the reference returned and the store.
\<close>

definition MovableClass_move_assign :: "addr \<Rightarrow> addr \<Rightarrow> objects \<Rightarrow> (addr \<times> objects) prog" where
  "MovableClass_move_assign this other objs =
     and_then (cout_put (''Move Assignment Operator'' @ nl)) (\<lambda>_. ret (this, objs))"

text \<open>
  \<^verbatim>\<open>obj1\<close> is at address 0 and \<^verbatim>\<open>obj2\<close> at address 1; at the end of the function the
  objects are destroyed in the reverse order of their construction. Each function returns
  the store it leaves.
\<close>

definition move_constructor :: "objects prog" where
  "move_constructor =
     (let obj1 = 0; obj2 = 1 in
      and_then (MovableClass_ctor obj1 Map.empty) (\<lambda>objs.
      and_then (MovableClass_move_ctor obj2 obj1 objs) (\<lambda>objs.
      and_then (MovableClass_dtor obj2 objs) (\<lambda>objs.
      MovableClass_dtor obj1 objs))))"

definition move_assignment :: "objects prog" where
  "move_assignment =
     (let obj1 = 0; obj2 = 1 in
      and_then (MovableClass_ctor obj1 Map.empty) (\<lambda>objs.
      and_then (MovableClass_ctor obj2 objs) (\<lambda>objs.
      and_then (MovableClass_move_assign obj2 obj1 objs) (\<lambda>(_, objs).
      and_then (MovableClass_dtor obj2 objs) (\<lambda>objs.
      MovableClass_dtor obj1 objs)))))"

definition main_move :: "cint prog" where
  "main_move =
     and_then move_constructor (\<lambda>_.
     and_then move_assignment (\<lambda>_. ret 0))"

section \<open>The thread example\<close>

text \<open>
  A \<^verbatim>\<open>std::ostringstream\<close>: the characters it holds, the room of its buffer and its
  \<^verbatim>\<open>badbit\<close>. The buffer starts as the short-string buffer of the string it writes to.
\<close>

record ostringstream =
  content :: string
  room :: nat
  badbit :: bool

definition ostringstream_ctor :: ostringstream where
  "ostringstream_ctor = \<lparr>content = [], room = short_string_capacity, badbit = False\<rparr>"

text \<open>
  The characters of one insertion go into the buffer one after the other. When the buffer
  is full it is grown, to twice its room and at least 512 characters: an allocation. When
  that fails the exception is caught by the insertion (\<^verbatim>\<open>operator<<\<close> is a formatted
  output function), which sets \<^verbatim>\<open>badbit\<close>; the stream keeps the characters it has and the
  rest of the text is lost.
\<close>

fun put_chars :: "string \<Rightarrow> ostringstream \<Rightarrow> ostringstream prog" where
  "put_chars [] oss = ret oss"
| "put_chars (c # cs) oss =
     (if length (content oss) < room oss
      then put_chars cs (oss\<lparr>content := content oss @ [c]\<rparr>)
      else and_then attempt (\<lambda>grown.
        if grown
        then put_chars cs (oss\<lparr>content := content oss @ [c], room := max (2 * room oss) 512\<rparr>)
        else ret (oss\<lparr>badbit := True\<rparr>)))"

text \<open>\<^verbatim>\<open>oss << text\<close>: an insertion into a stream whose \<^verbatim>\<open>badbit\<close> is set does nothing.\<close>

definition ostream_insert :: "string \<Rightarrow> ostringstream \<Rightarrow> ostringstream prog" where
  "ostream_insert text oss = (if badbit oss then ret oss else put_chars text oss)"

text \<open>
  \<^verbatim>\<open>
  void printMessage(const std::string& message)
  {
      std::ostringstream oss;
      oss << "Message: \"" << message << "\" from thread: "
          << std::this_thread::get_id() << std::endl;
      std::lock_guard<std::mutex> lock(coutMutex);
      std::cout << oss.str();
  }
  \<close>
  The text of the thread's id is a parameter. The lock is a request that can fail with
  \<^verbatim>\<open>std::system_error\<close>; \<^verbatim>\<open>oss.str()\<close> returns a \<^verbatim>\<open>std::string\<close> with a copy of the
  characters that the stream holds.
\<close>

definition printMessage :: "string \<Rightarrow> string \<Rightarrow> unit prog" where
  "printMessage message thread_id =
     (let oss = ostringstream_ctor in
      and_then (ostream_insert (''Message: '' @ dquote) oss) (\<lambda>oss.
      and_then (ostream_insert message oss) (\<lambda>oss.
      and_then (ostream_insert (dquote @ '' from thread: '') oss) (\<lambda>oss.
      and_then (ostream_insert thread_id oss) (\<lambda>oss.
      and_then (ostream_insert nl oss) (\<lambda>oss.
      and_then (request System_error) (\<lambda>_.
      and_then (string_make (content oss)) (\<lambda>text.
      cout_put text))))))))"

text \<open>
  The two callers pass a literal: the \<^verbatim>\<open>std::string\<close> that \<^verbatim>\<open>printMessage\<close> takes is made
  from it first. Both literals are longer than the short-string buffer.
\<close>

definition someThreadFunction :: "string \<Rightarrow> unit prog" where
  "someThreadFunction thread_id =
     and_then (string_make ''Hello from someThreadFunction()!'') (\<lambda>message.
     printMessage message thread_id)"

definition lambda_function :: "string \<Rightarrow> unit prog" where
  "lambda_function thread_id =
     and_then (string_make ''Hello from the lambda function!'') (\<lambda>message.
     printMessage message thread_id)"

text \<open>
  \<^verbatim>\<open>threadsVector.emplace_back(f, ...)\<close>: room in the vector, then the thread is started.
\<close>

definition thread_emplace_back :: "unit prog" where
  "thread_emplace_back = block [request Bad_alloc, request System_error]"

text \<open>
  \<^verbatim>\<open>main\<close> starts the two workers and joins them. The workers are run one after the other,
  in the order the schedule gives: \<open>lambda_first\<close> says that the worker with the lambda
  function is the first to run. \<^verbatim>\<open>main\<close> has no \<^verbatim>\<open>return\<close>: its exit code is 0.
\<close>

definition main_threads :: "bool \<Rightarrow> string \<Rightarrow> string \<Rightarrow> cint prog" where
  "main_threads lambda_first id1 id2 =
     and_then
       (block
          ([thread_emplace_back, thread_emplace_back] @
           (if lambda_first then [lambda_function id1, someThreadFunction id2]
            else [someThreadFunction id2, lambda_function id1])))
       (\<lambda>_. ret 0)"

section \<open>Properties of a program\<close>

text \<open>
  A program only writes to the standard output when, whatever the machine state it starts
  in, there is a text such that in every world the program ends the same way, leaves the
  machine as it does, and leaves that world with the text appended to its standard output
  and nothing else changed. The text and the result then depend on nothing of the world.
\<close>

definition stdout_only :: "'a prog \<Rightarrow> bool" where
  "stdout_only m \<longleftrightarrow>
     (\<forall>s. \<exists>text. \<forall>w.
        m (s\<lparr>env := w\<rparr>) = (fst (m s), (snd (m s))\<lparr>env := w\<lparr>stdout := stdout w @ text\<rparr>\<rparr>))"


text \<open>The state after \<open>n\<close> more requests and with a text printed.\<close>

definition after :: "machine \<Rightarrow> nat \<Rightarrow> string \<Rightarrow> machine" where
  "after s n out = printed (s\<lparr>failures := drop n (failures s)\<rparr>) out"



text \<open>
  A program with no error handling is a script: a sequence of steps, each a text printed
  and then a request, and a last text. When a request fails, the process is terminated by
  the fault that the request raises; it has printed what comes before the request and
  what the library prints while the exception leaves the failed operation (\<open>unwinding\<close>), and
  the request is the last it makes. When no request fails the process prints everything
  and exits with code 0.
\<close>

record step =
  before :: string
  raises :: fault
  unwinding :: string







section \<open>Arithmetic on \<^verbatim>\<open>int\<close>\<close>

lemma add_int_in_range:
  assumes "in_int_range (sint a + sint b)"
  shows "add_int a b = Inr (a + b)" and "sint (a + b) = sint a + sint b"
proof -
  show "add_int a b = Inr (a + b)"
    using assms by (simp add: add_int_def)
  have "- (2 ^ 31) \<le> sint a + sint b" and "sint a + sint b < 2 ^ 31"
    using assms by (simp_all add: in_int_range_def int_min_def int_max_def)
  then have "signed_take_bit 31 (sint a + sint b) = sint a + sint b"
    by (simp add: signed_take_bit_int_eq_self)
  then show "sint (a + b) = sint a + sint b"
    by (simp add: sint_word_ariths)
qed

lemma add_int_overflow:
  "\<not> in_int_range (sint a + sint b) \<Longrightarrow> add_int a b = Inl Signed_overflow"
  by (simp add: add_int_def)


text \<open>
  Claim C2: the variadic-template \<^verbatim>\<open>sum\<close> applied to the ten integer arguments 1 to 10
  returns 55.
\<close>

theorem sum_variadic_one_to_ten: "sum_variadic 1 [2, 3, 4, 5, 6, 7, 8, 9, 10] = Inr 55"
  by (simp add: sum_variadic_def add_int_def in_int_range_def int_min_def int_max_def)

text \<open>
  Claim C3: \<^verbatim>\<open>arity<int, float>::value\<close> is 2.
\<close>

theorem arity_int_float: "arity_value [T_int, T_float] = 2"
  by (simp add: arity_value_def)

subsection \<open>The loop over an initializer list\<close>

text \<open>
  From any running total, the loop returns the exact sum when every total on the way is
  an \<^verbatim>\<open>int\<close>, and overflows otherwise.
\<close>

lemma sum_loop_exact:
  "list_all in_int_range (running_totals (sint t) (map sint es)) \<Longrightarrow>
   \<exists>r. sum_loop t es = Inr r \<and> sint r = sint t + sum_list (map sint es)"
proof (induction es arbitrary: t)
  case Nil
  then show ?case by simp
next
  case (Cons e es)
  from Cons.prems have step: "in_int_range (sint t + sint e)"
    and rest: "list_all in_int_range (running_totals (sint t + sint e) (map sint es))"
    by simp_all
  note add = add_int_in_range [OF step]
  from rest have "list_all in_int_range (running_totals (sint (t + e)) (map sint es))"
    by (simp add: add(2))
  from Cons.IH [OF this] obtain r where
    "sum_loop (t + e) es = Inr r" and "sint r = sint (t + e) + sum_list (map sint es)"
    by blast
  then show ?case
    by (simp add: add add.assoc)
qed

lemma sum_loop_overflow:
  "\<not> list_all in_int_range (running_totals (sint t) (map sint es)) \<Longrightarrow>
   sum_loop t es = Inl Signed_overflow"
proof (induction es arbitrary: t)
  case Nil
  then show ?case by simp
next
  case (Cons e es)
  show ?case
  proof (cases "in_int_range (sint t + sint e)")
    case False
    then show ?thesis by (simp add: add_int_overflow)
  next
    case True
    note add = add_int_in_range [OF True]
    from Cons.prems True
    have "\<not> list_all in_int_range (running_totals (sint (t + e)) (map sint es))"
      by (simp add: add(2))
    from Cons.IH [OF this] show ?thesis
      by (simp add: add(1))
  qed
qed

lemma sum_initializer_list_overflows:
  "\<not> list_all in_int_range (running_totals 0 (map sint list)) \<Longrightarrow>
   sum_initializer_list list = Inl Signed_overflow"
  using sum_loop_overflow [of 0 list] by (simp add: sum_initializer_list_def)

text \<open>
  Claim C10, as the spec states it: the initializer-list \<^verbatim>\<open>sum\<close> returns the exact integer
  sum of the elements for every \<^verbatim>\<open>std::initializer_list<int>\<close>. It does not: the sum of
  the list \<^verbatim>\<open>{2147483647, 1}\<close> is 2147483648, which no \<^verbatim>\<open>int\<close> holds. The addition
  overflows, and where the overflow wraps around the function returns -2147483648.
\<close>

theorem sum_initializer_list_overflow:
  "sum_initializer_list [2147483647, 1] = Inl Signed_overflow \<and>
   sum_list (map sint [2147483647, 1 :: cint]) = 2147483648 \<and>
   sint (2147483647 + 1 :: cint) = - 2147483648"
  by (simp add: sum_initializer_list_def add_int_def in_int_range_def int_min_def int_max_def)

text \<open>
  Claim C10, amended: for every list whose running totals, taken in list order, all lie in
  the range of \<^verbatim>\<open>int\<close>, the function returns the exact integer sum of the elements; for
  the empty list it returns 0.
\<close>

theorem sum_initializer_list_exact:
  "(list_all in_int_range (running_totals 0 (map sint list)) \<longrightarrow>
      (\<exists>r. sum_initializer_list list = Inr r \<and> sint r = sum_list (map sint list))) \<and>
   sum_initializer_list [] = Inr 0"
  using sum_loop_exact [of 0 list] by (simp add: sum_initializer_list_def)

theorem sum_initializer_list_exact_witness:
  "list_all in_int_range (running_totals 0 (map sint [1, 2, 3 :: cint])) \<and>
   (\<exists>r. sum_initializer_list [1, 2, 3] = Inr r \<and> sint r = 6)"
proof -
  have totals: "list_all in_int_range (running_totals 0 (map sint [1, 2, 3 :: cint]))"
    by (simp add: in_int_range_def int_min_def int_max_def)
  from sum_initializer_list_exact [of "[1, 2, 3]"] totals
  have "\<exists>r. sum_initializer_list [1, 2, 3] = Inr r \<and> sint r = sum_list (map sint [1, 2, 3 :: cint])"
    by blast
  with totals show ?thesis by simp
qed

subsection \<open>The larger of two objects\<close>

text \<open>
  Claim C8: for two objects \<open>a\<close> and \<open>b\<close> of one type, whenever \<^verbatim>\<open>a > b\<close> is false (as it is
  when they compare equal) \<^verbatim>\<open>getLarger(a, b)\<close> returns the reference to the second
  argument \<open>b\<close>; an assignment through the returned reference changes \<open>b\<close> and nothing else,
  so not \<open>a\<close>, which is another object than \<open>b\<close>.
\<close>

theorem getLarger_returns_second:
  fixes s :: "('a::ord) store"
  assumes "\<not> s a > s b"
  shows "getLarger s a b = b \<and>
    assign_ref s (getLarger s a b) v = s(b := v) \<and>
    (a \<noteq> b \<longrightarrow> assign_ref s (getLarger s a b) v a = s a)"
  using assms by (simp add: getLarger_def assign_ref_def)

theorem getLarger_returns_second_witness:
  "\<not> (locals 5 5 :: int store) 0 > (locals 5 5 :: int store) 1 \<and>
   getLarger (locals 5 5 :: int store) 0 1 = 1 \<and>
   assign_ref (locals 5 5 :: int store) (getLarger (locals 5 5 :: int store) 0 1) 7 =
     (locals 5 5 :: int store)(1 := 7) \<and>
   assign_ref (locals 5 5 :: int store) (getLarger (locals 5 5 :: int store) 0 1) 7 0 =
     (locals 5 5 :: int store) 0"
proof -
  have equal: "\<not> (locals 5 5 :: int store) 0 > (locals 5 5 :: int store) 1"
    by (simp add: locals_def)
  have distinct: "(0 :: addr) \<noteq> 1"
    by simp
  show ?thesis
    using equal distinct getLarger_returns_second [OF equal, where v = 7] by blast
qed

section \<open>What the examples print\<close>

lemmas prog_defs =
  and_then_def ret_def cout_put_def request_def throw_def on_fault_def lift_def attempt_def


text \<open>
  Claim C4: the \<^verbatim>\<open>main\<close> of the CRTP shape example prints the line
  \<^verbatim>\<open>Drawing Circle\<close> first and the line \<^verbatim>\<open>Drawing Square\<close> second, and exits with code 0.
\<close>

theorem main_crtp_output:
  "run_process main_crtp s =
     (Exited 0, printed s (''Drawing Circle'' @ nl @ ''Drawing Square'' @ nl))"
  by (simp add: run_process_def main_crtp_def render_def Shape_draw_def Circle_drawImpl_def
      Square_drawImpl_def prog_defs printed_def)

text \<open>
  Claim C9: the move constructor and the move assignment operator of \<^verbatim>\<open>MovableClass\<close>
  read and change no object data. Each only prints its line: the object moved from is the
  object it was, in the store that the operation leaves, and the move assignment operator
  returns the reference to its left-hand operand and leaves the store as it was.
\<close>

theorem MovableClass_move_leaves_source:
  assumes "objs other = Some v"
  shows "MovableClass_move_ctor this other objs s =
      (Inr (objs(this \<mapsto> MovableClass)), printed s (''Move Constructor'' @ nl)) \<and>
    (objs(this \<mapsto> MovableClass)) other = Some v \<and>
    MovableClass_move_assign this other objs s =
      (Inr (this, objs), printed s (''Move Assignment Operator'' @ nl))"
  using assms
  by (cases v) (simp add: MovableClass_move_ctor_def MovableClass_move_assign_def prog_defs)

theorem MovableClass_move_leaves_source_witness:
  "[0 \<mapsto> MovableClass] (0 :: addr) = Some MovableClass \<and>
   MovableClass_move_ctor 1 0 [0 \<mapsto> MovableClass] start =
     (Inr [0 \<mapsto> MovableClass, 1 \<mapsto> MovableClass], printed start (''Move Constructor'' @ nl)) \<and>
   [0 \<mapsto> MovableClass, 1 \<mapsto> MovableClass] (0 :: addr) = Some MovableClass \<and>
   MovableClass_move_assign 1 0 [0 \<mapsto> MovableClass] start =
     (Inr (1, [0 \<mapsto> MovableClass]), printed start (''Move Assignment Operator'' @ nl))"
proof -
  have live: "[0 \<mapsto> MovableClass] (0 :: addr) = Some MovableClass"
    by simp
  from MovableClass_move_leaves_source
    [where objs = "[0 \<mapsto> MovableClass]" and other = 0 and v = MovableClass and this = 1
      and s = start]
  show ?thesis
    using live by blast
qed

section \<open>The examples only write to the standard output\<close>

lemma stdout_only_ret: "stdout_only (ret v)"
  unfolding stdout_only_def ret_def
  by (intro allI exI [of _ "[]"]) simp

lemma stdout_only_throw: "stdout_only (throw f)"
  unfolding stdout_only_def throw_def
  by (intro allI exI [of _ "[]"]) simp

lemma stdout_only_cout_put: "stdout_only (cout_put t)"
  unfolding stdout_only_def cout_put_def printed_def
  by (intro allI exI [of _ t]) simp

lemma stdout_only_request: "stdout_only (request f)"
  unfolding stdout_only_def request_def
  by (intro allI exI [of _ "[]"]) (simp split: list.split)

lemma stdout_only_attempt: "stdout_only attempt"
  unfolding stdout_only_def attempt_def
  by (intro allI exI [of _ "[]"]) (simp split: list.split)

lemma stdout_only_if:
  "stdout_only a \<Longrightarrow> stdout_only b \<Longrightarrow> stdout_only (if c then a else b)"
  by simp

lemma stdout_only_and_then:
  assumes m: "stdout_only m" and k: "\<And>v. stdout_only (k v)"
  shows "stdout_only (and_then m k)"
  unfolding stdout_only_def
proof
  fix s
  obtain r s1 where ms: "m s = (r, s1)"
    by (cases "m s")
  from m obtain t1 where t1:
    "\<And>w. m (s\<lparr>env := w\<rparr>) = (r, s1\<lparr>env := w\<lparr>stdout := stdout w @ t1\<rparr>\<rparr>)"
    unfolding stdout_only_def using ms by (metis fst_conv snd_conv)
  show "\<exists>text. \<forall>w. and_then m k (s\<lparr>env := w\<rparr>) =
      (fst (and_then m k s), (snd (and_then m k s))\<lparr>env := w\<lparr>stdout := stdout w @ text\<rparr>\<rparr>)"
  proof (cases r)
    case (Inl f)
    then show ?thesis
      using ms t1 by (intro exI [of _ t1]) (simp add: and_then_def)
  next
    case (Inr v)
    obtain r2 s2 where ks: "k v s1 = (r2, s2)"
      by (cases "k v s1")
    from k [of v] obtain t2 where t2:
      "\<And>w. k v (s1\<lparr>env := w\<rparr>) = (r2, s2\<lparr>env := w\<lparr>stdout := stdout w @ t2\<rparr>\<rparr>)"
      unfolding stdout_only_def using ks by (metis fst_conv snd_conv)
    show ?thesis
      using Inr ms ks t1 t2 by (intro exI [of _ "t1 @ t2"]) (simp add: and_then_def)
  qed
qed

lemma stdout_only_block:
  "(\<And>c. c \<in> set cs \<Longrightarrow> stdout_only c) \<Longrightarrow> stdout_only (block cs)"
  by (induction cs) (simp_all add: stdout_only_ret stdout_only_and_then)

lemma stdout_only_on_fault:
  fixes m :: "'a prog"
  assumes m: "stdout_only m" and c: "stdout_only cleanup"
  shows "stdout_only (on_fault m cleanup)"
  unfolding stdout_only_def
proof
  fix s
  obtain r s1 where ms: "m s = (r, s1)"
    by (cases "m s")
  from m obtain t1 where t1:
    "\<And>w. m (s\<lparr>env := w\<rparr>) = (r, s1\<lparr>env := w\<lparr>stdout := stdout w @ t1\<rparr>\<rparr>)"
    unfolding stdout_only_def using ms by (metis fst_conv snd_conv)
  show "\<exists>text. \<forall>w. on_fault m cleanup (s\<lparr>env := w\<rparr>) =
      (fst (on_fault m cleanup s), (snd (on_fault m cleanup s))\<lparr>env := w\<lparr>stdout := stdout w @ text\<rparr>\<rparr>)"
  proof (cases r)
    case (Inr v)
    then show ?thesis
      using ms t1 by (intro exI [of _ t1]) (simp add: on_fault_def)
  next
    case (Inl f)
    let ?k = "and_then cleanup (\<lambda>_. throw f) :: 'a prog"
    have k: "stdout_only ?k"
      by (simp add: stdout_only_and_then c stdout_only_throw)
    obtain r2 s2 where ks: "?k s1 = (r2, s2)"
      by (cases "?k s1")
    from k obtain t2 where t2:
      "\<And>w. ?k (s1\<lparr>env := w\<rparr>) = (r2, s2\<lparr>env := w\<lparr>stdout := stdout w @ t2\<rparr>\<rparr>)"
      unfolding stdout_only_def using ks by (metis fst_conv snd_conv)
    show ?thesis
      using Inl ms ks t1 t2 by (intro exI [of _ "t1 @ t2"]) (simp add: on_fault_def)
  qed
qed

lemma stdout_only_lift: "stdout_only (lift r)"
  by (cases r) (simp_all add: lift_def stdout_only_ret stdout_only_throw)

lemmas stdout_only_intros =
  stdout_only_ret stdout_only_throw stdout_only_cout_put stdout_only_request
  stdout_only_attempt stdout_only_if stdout_only_and_then stdout_only_block
  stdout_only_on_fault stdout_only_lift

lemma stdout_only_string_make: "stdout_only (string_make t)"
  unfolding string_make_def
  by (intro stdout_only_intros)

lemma stdout_only_main_virtual: "stdout_only main_virtual"
  unfolding main_virtual_def render_virtual_def Let_def
  by (intro stdout_only_intros) (auto intro: stdout_only_cout_put)

lemma stdout_only_main_crtp: "stdout_only main_crtp"
  unfolding main_crtp_def render_def Shape_draw_def Circle_drawImpl_def Square_drawImpl_def
    Let_def
  by (intro stdout_only_intros) (auto intro: stdout_only_cout_put)

lemma stdout_only_main_vector: "stdout_only main_vector"
  unfolding main_vector_def emplace_back_def MyClass_ctor_def Let_def
  by (intro stdout_only_intros stdout_only_string_make)

lemma stdout_only_main_templates: "stdout_only (main_templates show_double)"
  unfolding main_templates_def Let_def
  by (intro stdout_only_intros stdout_only_string_make)

lemma stdout_only_Resource:
  "stdout_only new_Resource" "stdout_only delete_Resource" "stdout_only shared_ptr_ctor"
  unfolding new_Resource_def delete_Resource_def shared_ptr_ctor_def Resource_ctor_def
    Resource_dtor_def
  by (intro stdout_only_intros)+

lemma stdout_only_main_shared_ptr: "stdout_only main_shared_ptr"
  unfolding main_shared_ptr_def
  by (intro stdout_only_and_then stdout_only_ret stdout_only_block)
    (auto intro: stdout_only_Resource)

lemma stdout_only_main_unique_ptr: "stdout_only main_unique_ptr"
  unfolding main_unique_ptr_def useResource_def
  by (intro stdout_only_and_then stdout_only_ret stdout_only_block)
    (auto intro: stdout_only_Resource)

lemma stdout_only_main_make_unique: "stdout_only main_make_unique"
  unfolding main_make_unique_def displayValue_def display_def Let_def
  by (intro stdout_only_intros)

lemma stdout_only_main_move: "stdout_only main_move"
  unfolding main_move_def move_constructor_def move_assignment_def MovableClass_ctor_def
    MovableClass_dtor_def MovableClass_move_ctor_def MovableClass_move_assign_def Let_def
    split_def
  by (intro stdout_only_intros)

lemma stdout_only_put_chars: "stdout_only (put_chars cs oss)"
proof (induction cs arbitrary: oss)
  case Nil
  show ?case by (simp add: stdout_only_ret)
next
  case (Cons c cs)
  show ?case
    unfolding put_chars.simps
    by (intro stdout_only_intros Cons.IH)
qed

lemma stdout_only_ostream_insert: "stdout_only (ostream_insert t oss)"
  unfolding ostream_insert_def
  by (intro stdout_only_intros stdout_only_put_chars)

lemma stdout_only_printMessage: "stdout_only (printMessage message thread_id)"
  unfolding printMessage_def Let_def
  by (intro stdout_only_intros stdout_only_ostream_insert stdout_only_string_make)

lemma stdout_only_thread_emplace_back: "stdout_only thread_emplace_back"
  unfolding thread_emplace_back_def
  by (rule stdout_only_block) (auto intro: stdout_only_request)

lemma stdout_only_workers:
  "stdout_only (lambda_function thread_id)" "stdout_only (someThreadFunction thread_id)"
  unfolding lambda_function_def someThreadFunction_def
  by (intro stdout_only_intros stdout_only_string_make stdout_only_printMessage)+

lemma stdout_only_main_threads: "stdout_only (main_threads lambda_first id1 id2)"
  unfolding main_threads_def
  by (intro stdout_only_and_then stdout_only_ret stdout_only_block)
    (auto split: if_splits intro: stdout_only_workers stdout_only_thread_emplace_back)

text \<open>
  Claim C7: every example runs with no command-line arguments, reads no configuration,
  file or network input, persists no state, and its only external effect is text written
  to the standard output. Each \<^verbatim>\<open>main\<close> takes no argument, and whatever the world it is
  started in (its command line, environment, standard input, files and network), it ends
  the same way and leaves that world as it was but for one text, the same in every world,
  appended to the standard output. For the thread example this holds in either order of
  the two workers and for any text of the thread ids, and for the template example for
  any text that a \<^verbatim>\<open>double\<close> is printed as.
\<close>

theorem examples_write_stdout_only:
  "stdout_only main_virtual \<and>
   stdout_only main_crtp \<and>
   stdout_only main_vector \<and>
   stdout_only (main_templates show_double) \<and>
   stdout_only (main_threads lambda_first id1 id2) \<and>
   stdout_only main_shared_ptr \<and>
   stdout_only main_move \<and>
   stdout_only main_make_unique \<and>
   stdout_only main_unique_ptr"
  by (intro conjI stdout_only_main_virtual stdout_only_main_crtp stdout_only_main_vector
      stdout_only_main_templates stdout_only_main_threads stdout_only_main_shared_ptr
      stdout_only_main_move stdout_only_main_make_unique stdout_only_main_unique_ptr)

section \<open>How the examples end\<close>

subsection \<open>States\<close>

lemma after_0_Nil [simp]: "after s 0 [] = s"
  by (simp add: after_def printed_def)

lemma printed_after: "printed (after s n out) t = after s n (out @ t)"
  by (simp add: after_def printed_def)




lemma after_failures_Nil: "failures s = [] \<Longrightarrow> after s n [] = s"
  by (cases s) (simp add: after_def printed_def)

subsection \<open>The examples that are scripts\<close>











subsection \<open>The string stream\<close>

lemma and_then_ret [simp]: "and_then (ret v) k = k v"
  by (simp add: and_then_def ret_def)








subsection \<open>The thread example\<close>















end
